theory Spec2Isabelle
  imports Complex_Main "HOL-Library.Sublist"
begin

section \<open>The USP validation command line (limacharlie/USP.py)\<close>

text \<open>
  A shallow embedding of \<^verbatim>\<open>limacharlie/USP.py\<close>: the helpers \<^verbatim>\<open>reportError\<close>,
  \<^verbatim>\<open>_load_file_content\<close> and \<^verbatim>\<open>_load_mapping\<close>, the action \<^verbatim>\<open>do_validate\<close> and the
  argument parser of \<^verbatim>\<open>main\<close>.

  The file system, the JSON and YAML libraries, Python's \<^verbatim>\<open>repr\<close> and the
  \<^verbatim>\<open>Manager\<close> class are not part of the module; they are parameters of the model,
  collected in the record \<open>env\<close>.  An exception is a value: \<^verbatim>\<open>reportError\<close>, which writes
  one message to stderr and raises \<^verbatim>\<open>SystemExit(1)\<close>, is the left injection of a sum,
  and since no handler of the module catches \<^verbatim>\<open>SystemExit\<close> it ends the run wherever
  it is raised.
\<close>

subsection \<open>Python values\<close>

text \<open>
  The values that \<^verbatim>\<open>json.loads\<close> and \<^verbatim>\<open>yaml.safe_load\<close> produce.  A dictionary keeps
  its insertion order, so it is an association list (with distinct keys when it comes
  from Python).  A float is represented by its numeric value.
\<close>

datatype pyval =
    PNone
  | PBool bool
  | PInt int
  | PFloat real
  | PStr string
  | PList "pyval list"
  | PDict "(string \<times> pyval) list"

abbreviation nl :: char where "nl \<equiv> CHR 0x0A"

abbreviation dq :: char where "dq \<equiv> CHR 0x22"

text \<open>Truth value of a Python object, as \<^verbatim>\<open>if x:\<close> tests it.\<close>

fun truthy :: "pyval \<Rightarrow> bool" where
  "truthy PNone = False"
| "truthy (PBool b) = b"
| "truthy (PInt i) = (i \<noteq> 0)"
| "truthy (PFloat r) = (r \<noteq> 0)"
| "truthy (PStr s) = (s \<noteq> [])"
| "truthy (PList xs) = (xs \<noteq> [])"
| "truthy (PDict kvs) = (kvs \<noteq> [])"

text \<open>\<^verbatim>\<open>isinstance(x, list)\<close>.\<close>

fun is_list :: "pyval \<Rightarrow> bool" where
  "is_list (PList xs) = True"
| "is_list v = False"

text \<open>\<^verbatim>\<open>d.get(key, default)\<close> on the entries of a dictionary.\<close>

definition dict_get :: "(string \<times> pyval) list \<Rightarrow> string \<Rightarrow> pyval \<Rightarrow> pyval" where
  "dict_get kvs key dflt = (case map_of kvs key of Some v \<Rightarrow> v | None \<Rightarrow> dflt)"

text \<open>Decimal rendering of integers, as \<^verbatim>\<open>str\<close> prints them.\<close>

fun str_nat :: "nat \<Rightarrow> string" where
  "str_nat n =
     (if n < 10 then [''0123456789'' ! n]
      else str_nat (n div 10) @ [''0123456789'' ! (n mod 10)])"

declare str_nat.simps [simp del]

definition str_int :: "int \<Rightarrow> string" where
  "str_int i = (if i < 0 then ''-'' @ str_nat (nat (- i)) else str_nat (nat i))"

text \<open>
  \<^verbatim>\<open>str(v)\<close>, which an f-string applies to an interpolated value.  A string is itself;
  for a float, a list or a dictionary \<^verbatim>\<open>str\<close> is \<^verbatim>\<open>repr\<close>, which is the parameter \<open>rp\<close>.
\<close>

fun py_str :: "(pyval \<Rightarrow> string) \<Rightarrow> pyval \<Rightarrow> string" where
  "py_str rp (PStr s) = s"
| "py_str rp PNone = ''None''"
| "py_str rp (PBool b) = (if b then ''True'' else ''False'')"
| "py_str rp (PInt i) = str_int i"
| "py_str rp v = rp v"

text \<open>\<^verbatim>\<open>sep.join(xs)\<close>.\<close>

fun join :: "string \<Rightarrow> string list \<Rightarrow> string" where
  "join sep [] = []"
| "join sep [x] = x"
| "join sep (x # y # ys) = x @ sep @ join sep (y # ys)"

text \<open>\<^verbatim>\<open>print(s)\<close> writes \<open>s\<close> and a line break to stdout.\<close>

definition print :: "string \<Rightarrow> string" where
  "print s = s @ [nl]"

subsection \<open>Arguments, request, response, outcome\<close>

text \<open>The namespace that \<^verbatim>\<open>argparse\<close> fills in \<^verbatim>\<open>main\<close>; \<open>None\<close> is Python's \<^verbatim>\<open>None\<close>.\<close>

record args =
  action :: string
  platform :: string
  mapping :: "string option"
  mapping_file :: "string option"
  mappings_file :: "string option"
  input :: "string option"
  input_file :: "string option"
  json_input :: bool
  hostname :: "string option"
  indexing_file :: "string option"
  output_format :: string

text \<open>The keyword arguments of \<^verbatim>\<open>man.validateUSP(...)\<close>.\<close>

record request =
  req_platform :: string
  req_hostname :: "string option"
  req_mapping :: pyval
  req_mappings :: pyval
  req_indexing :: pyval
  req_text_input :: pyval
  req_json_input :: pyval

text \<open>
  Modelled from the spec: the value that \<^verbatim>\<open>Manager.validateUSP\<close> returns (the class is
  not in the module): a dictionary with the optional keys \<^verbatim>\<open>errors\<close>, a list of strings,
  and \<^verbatim>\<open>results\<close>, a list of parsed events of free-form shape.  \<open>None\<close> is an absent key.
\<close>

record response =
  errors :: "string list option"
  results :: "pyval list option"

text \<open>
  How a run ends: the function returns, \<^verbatim>\<open>sys.exit(n)\<close> is called, or an exception
  that nothing catches leaves the program (the interpreter then prints a traceback
  and the exit code is 1).
\<close>

datatype status = Returned | SysExit int | Uncaught string

fun exit_code :: "status \<Rightarrow> int" where
  "exit_code Returned = 0"
| "exit_code (SysExit n) = n"
| "exit_code (Uncaught e) = 1"

text \<open>
  What a run of \<^verbatim>\<open>do_validate\<close> leaves behind: the text the module wrote to stdout and
  to stderr, how it ended, and the request of the remote call when the call was made.
\<close>

record outcome =
  stdout :: string
  stderr :: string
  status :: status
  request :: "request option"

subsection \<open>The environment\<close>

text \<open>An exception of \<^verbatim>\<open>open\<close> or \<^verbatim>\<open>read\<close>, with the text \<^verbatim>\<open>str(e)\<close>.\<close>

datatype io_error = FileNotFoundError string | OtherError string

fun error_text :: "io_error \<Rightarrow> string" where
  "error_text (FileNotFoundError e) = e"
| "error_text (OtherError e) = e"

text \<open>
  \<^item> \<open>open_rb path\<close>: \<^verbatim>\<open>open(path, 'rb')\<close> followed by \<^verbatim>\<open>f.read()\<close>: the bytes or the exception;
  \<^item> \<open>decode_utf8\<close>: \<^verbatim>\<open>bytes.decode('utf-8')\<close>, the text or the exception's text;
  \<^item> \<open>json_loads\<close>: \<^verbatim>\<open>json.loads\<close>, the value or the text of the \<^verbatim>\<open>JSONDecodeError\<close>;
  \<^item> \<open>yaml_safe_load\<close>: \<^verbatim>\<open>yaml.safe_load\<close>, the value or the text of the exception;
  \<^item> \<open>json_dumps\<close>: \<^verbatim>\<open>json.dumps(v, indent=2)\<close>;
  \<^item> \<open>yaml_safe_dump\<close>: \<^verbatim>\<open>yaml.safe_dump(v, default_flow_style=False)\<close>;
  \<^item> \<open>repr\<close>: Python's \<^verbatim>\<open>repr\<close>;
  \<^item> \<open>Manager\<close>: \<^verbatim>\<open>Manager(None, None)\<close>: the exception's text when the constructor
    raises, else the method \<^verbatim>\<open>validateUSP\<close>, which returns the response or raises.
\<close>

record env =
  open_rb :: "string \<Rightarrow> io_error + string"
  decode_utf8 :: "string \<Rightarrow> string + string"
  json_loads :: "string \<Rightarrow> string + pyval"
  yaml_safe_load :: "string \<Rightarrow> string + pyval"
  json_dumps :: "pyval \<Rightarrow> string"
  yaml_safe_dump :: "pyval \<Rightarrow> string"
  repr :: "pyval \<Rightarrow> string"
  Manager :: "string + (request \<Rightarrow> string + response)"

subsection \<open>reportError, \_load\_file\_content, \_load\_mapping\<close>

text \<open>
  \<^verbatim>\<open>reportError(msg)\<close> writes \<open>msg\<close> and a line break to stderr and calls
  \<^verbatim>\<open>sys.exit(1)\<close>.  Inside a computation it is \<open>Inl msg\<close>; \<open>exited\<close> is the outcome of the
  run that it ends (every call of it in \<^verbatim>\<open>do_validate\<close> comes before the first \<^verbatim>\<open>print\<close>).
\<close>

definition reportError :: "string \<Rightarrow> string + 'a" where
  "reportError msg = Inl msg"

definition exited :: "string \<Rightarrow> request option \<Rightarrow> outcome" where
  "exited msg rq = \<lparr>stdout = [], stderr = msg @ [nl], status = SysExit 1, request = rq\<rparr>"

definition load_file_content :: "env \<Rightarrow> string \<Rightarrow> bool \<Rightarrow> string + pyval" where
  "load_file_content e file_path as_json =
     (case open_rb e file_path of
        Inl (FileNotFoundError t) \<Rightarrow> reportError (''File not found: '' @ file_path)
      | Inl (OtherError t) \<Rightarrow> reportError (''Error reading file '' @ file_path @ '': '' @ t)
      | Inr bytes \<Rightarrow>
          (case decode_utf8 e bytes of
             Inl t \<Rightarrow> reportError (''Error reading file '' @ file_path @ '': '' @ t)
           | Inr content \<Rightarrow>
               if as_json then
                 (case json_loads e content of
                    Inl t \<Rightarrow> reportError (''Invalid JSON in file '' @ file_path @ '': '' @ t)
                  | Inr v \<Rightarrow> Inr v)
               else Inr (PStr content)))"

text \<open>An argument that is given and not the empty string: what \<^verbatim>\<open>if args.x:\<close> tests.\<close>

fun truthy_arg :: "string option \<Rightarrow> string option" where
  "truthy_arg None = None"
| "truthy_arg (Some s) = (if s = [] then None else Some s)"

definition load_mapping :: "env \<Rightarrow> args \<Rightarrow> string + pyval" where
  "load_mapping e a =
     (case truthy_arg (mapping_file a) of
        Some path \<Rightarrow>
          (case open_rb e path of
             Inl x \<Rightarrow> reportError (''Error loading mapping file: '' @ error_text x)
           | Inr content \<Rightarrow>
               (case yaml_safe_load e content of
                  Inl t \<Rightarrow> reportError (''Error loading mapping file: '' @ t)
                | Inr v \<Rightarrow> Inr v))
      | None \<Rightarrow>
          (case truthy_arg (mapping a) of
             Some m \<Rightarrow>
               (case json_loads e m of
                  Inl t \<Rightarrow> reportError (''Invalid JSON in mapping argument: '' @ t)
                | Inr v \<Rightarrow> Inr v)
           | None \<Rightarrow> Inr PNone))"

subsection \<open>do\_validate: from the arguments to the request (lines 111 to 160)\<close>

definition builtin_parser_platforms :: "string list" where
  "builtin_parser_platforms =
     [''cef'', ''wel'', ''gcp'', ''aws'', ''1password'', ''duo'', ''slack'']"

text \<open>The message of lines 119 to 121, three lines of text.\<close>

definition mapping_required_message :: "string \<Rightarrow> string" where
  "mapping_required_message p =
     ''Platform '' @ [dq] @ p @ [dq] @ '' requires a mapping configuration.'' @ [nl] @
     ''Use --mapping, --mapping-file, or --mappings-file to provide one.'' @ [nl] @
     ''Platforms with built-in parsers (no mapping required): '' @
     join '', '' builtin_parser_platforms"

definition mappings_not_array_message :: string where
  "mappings_not_array_message =
     ''--mappings-file must contain a JSON array of mapping descriptors''"

definition json_not_array_message :: string where
  "json_not_array_message = ''JSON input must be an array of objects''"

definition input_required_message :: string where
  "input_required_message = ''Either --input or --input-file is required''"

definition indexing_not_array_message :: string where
  "indexing_not_array_message =
     ''--indexing-file must contain a JSON array of indexing rules''"

text \<open>Lines 116 to 121: the check that a mapping is there when the platform needs one.\<close>

definition require_mapping :: "args \<Rightarrow> pyval \<Rightarrow> string + unit" where
  "require_mapping a mapping_v =
     (if mapping_v = PNone \<and> mappings_file a = None then
        if platform a \<notin> set builtin_parser_platforms then
          reportError (mapping_required_message (platform a))
        else Inr ()
      else Inr ())"

text \<open>Lines 124 to 128: the array of mapping descriptors.\<close>

definition load_mappings :: "env \<Rightarrow> args \<Rightarrow> string + pyval" where
  "load_mappings e a =
     (case truthy_arg (mappings_file a) of
        Some path \<Rightarrow>
          (case load_file_content e path True of
             Inl m \<Rightarrow> Inl m
           | Inr mappings \<Rightarrow>
               if \<not> is_list mappings then reportError mappings_not_array_message
               else Inr mappings)
      | None \<Rightarrow> Inr PNone)"

text \<open>Lines 131 to 150: the sample, as the pair \<open>(text_input, json_input)\<close>.\<close>

definition load_input :: "env \<Rightarrow> args \<Rightarrow> string + pyval \<times> pyval" where
  "load_input e a =
     (case truthy_arg (input_file a) of
        Some path \<Rightarrow>
          if json_input a then
            (case load_file_content e path True of
               Inl m \<Rightarrow> Inl m
             | Inr js \<Rightarrow>
                 if \<not> is_list js then reportError json_not_array_message
                 else Inr (PNone, js))
          else
            (case load_file_content e path False of
               Inl m \<Rightarrow> Inl m
             | Inr txt \<Rightarrow> Inr (txt, PNone))
      | None \<Rightarrow>
          (case truthy_arg (input a) of
             Some s \<Rightarrow>
               if json_input a then
                 (case json_loads e s of
                    Inl t \<Rightarrow> reportError (''Invalid JSON in input argument: '' @ t)
                  | Inr js \<Rightarrow>
                      if \<not> is_list js then reportError json_not_array_message
                      else Inr (PNone, js))
               else Inr (PStr s, PNone)
           | None \<Rightarrow> Inr (PNone, PNone)))"

text \<open>Lines 152 and 153.\<close>

definition require_input :: "pyval \<Rightarrow> pyval \<Rightarrow> string + unit" where
  "require_input text_in json_in =
     (if text_in = PNone \<and> json_in = PNone then reportError input_required_message
      else Inr ())"

text \<open>Lines 156 to 160: the indexing rules.\<close>

definition load_indexing :: "env \<Rightarrow> args \<Rightarrow> string + pyval" where
  "load_indexing e a =
     (case truthy_arg (indexing_file a) of
        Some path \<Rightarrow>
          (case load_file_content e path True of
             Inl m \<Rightarrow> Inl m
           | Inr indexing \<Rightarrow>
               if \<not> is_list indexing then reportError indexing_not_array_message
               else Inr indexing)
      | None \<Rightarrow> Inr PNone)"

text \<open>
  Lines 111 to 160 in their order: the first \<^verbatim>\<open>reportError\<close> ends the run, otherwise the
  keyword arguments of the remote call are ready.
\<close>

definition prepare_request :: "env \<Rightarrow> args \<Rightarrow> string + request" where
  "prepare_request e a =
     (case load_mapping e a of
        Inl m \<Rightarrow> Inl m
      | Inr mapping_v \<Rightarrow>
     (case require_mapping a mapping_v of
        Inl m \<Rightarrow> Inl m
      | Inr u \<Rightarrow>
     (case load_mappings e a of
        Inl m \<Rightarrow> Inl m
      | Inr mappings \<Rightarrow>
     (case load_input e a of
        Inl m \<Rightarrow> Inl m
      | Inr (text_in, json_in) \<Rightarrow>
     (case require_input text_in json_in of
        Inl m \<Rightarrow> Inl m
      | Inr u \<Rightarrow>
     (case load_indexing e a of
        Inl m \<Rightarrow> Inl m
      | Inr indexing \<Rightarrow>
          Inr \<lparr>req_platform = platform a, req_hostname = hostname a,
               req_mapping = mapping_v, req_mappings = mappings,
               req_indexing = indexing, req_text_input = text_in,
               req_json_input = json_in\<rparr>))))))"

subsection \<open>do\_validate: rendering the response (lines 177 to 227)\<close>

text \<open>
  A rendering step gives the text it printed and, when it raised, the name of the
  exception: the text printed before the exception stays printed.
\<close>

type_synonym printed = "string \<times> string option"

text \<open>
  Lines 217 to 221.  Python evaluates the default
  \<^verbatim>\<open>routing.get('this', {}).get('hostname', '')\<close> before the outer \<^verbatim>\<open>get\<close> is called,
  whether the key \<^verbatim>\<open>hostname\<close> is there or not; \<^verbatim>\<open>get\<close> on a value that is not a
  dictionary raises \<^verbatim>\<open>AttributeError\<close>.
\<close>

definition summary_hostname :: "env \<Rightarrow> (string \<times> pyval) list \<Rightarrow> printed" where
  "summary_hostname e event =
     (let routing = dict_get event ''routing'' (PDict []) in
      if truthy routing then
        (case routing of
           PDict rt \<Rightarrow>
             (case dict_get rt ''this'' (PDict []) of
                PDict this \<Rightarrow>
                  (let hostname_v = dict_get rt ''hostname'' (dict_get this ''hostname'' (PStr [])) in
                   if truthy hostname_v then
                     (print (''  hostname: '' @ py_str (repr e) hostname_v), None)
                   else ([], None))
              | v \<Rightarrow> ([], Some ''AttributeError''))
         | v \<Rightarrow> ([], Some ''AttributeError''))
      else ([], None))"

text \<open>Lines 224 to 226: one line for every key but \<^verbatim>\<open>routing\<close>.\<close>

fun summary_fields :: "env \<Rightarrow> (string \<times> pyval) list \<Rightarrow> string" where
  "summary_fields e [] = []"
| "summary_fields e ((key, v) # kvs) =
     (if key \<noteq> ''routing'' then print (''  '' @ key @ '': '' @ py_str (repr e) v) else [])
     @ summary_fields e kvs"

text \<open>Lines 215 to 227: the body of the loop, for the event number \<open>i\<close>.\<close>

definition summary_event :: "env \<Rightarrow> nat \<Rightarrow> pyval \<Rightarrow> printed" where
  "summary_event e i event_v =
     (let head = print (''Event '' @ str_nat i @ '':'') in
      case event_v of
        PDict event \<Rightarrow>
          (case summary_hostname e event of
             (h, Some x) \<Rightarrow> (head @ h, Some x)
           | (h, None) \<Rightarrow>
               (case dict_get event ''event'' event_v of
                  PDict evt \<Rightarrow> (head @ h @ summary_fields e evt @ print [], None)
                | v \<Rightarrow> (head @ h, Some ''AttributeError'')))
      | v \<Rightarrow> (head, Some ''AttributeError''))"

text \<open>Line 214: \<^verbatim>\<open>for i, event in enumerate(results, 1)\<close>, started at \<open>i\<close>.\<close>

fun summary_events :: "env \<Rightarrow> nat \<Rightarrow> pyval list \<Rightarrow> printed" where
  "summary_events e i [] = ([], None)"
| "summary_events e i (event_v # rest) =
     (case summary_event e i event_v of
        (out, Some x) \<Rightarrow> (out, Some x)
      | (out, None) \<Rightarrow>
          (case summary_events e (Suc i) rest of (out', x) \<Rightarrow> (out @ out', x)))"

text \<open>Lines 182 to 189.\<close>

definition render_errors :: "string list \<Rightarrow> pyval list \<Rightarrow> string" where
  "render_errors errs res =
     print (''VALIDATION FAILED'' @ [nl]) @
     print ''Errors:'' @
     concat (map (\<lambda>err. print (''  - '' @ err)) errs) @
     print [] @
     (if res \<noteq> [] then
        print (''Partially parsed '' @ str_nat (length res) @ '' event(s) before failure.'')
      else [])"

text \<open>Lines 192 to 202.\<close>

definition render_empty :: string where
  "render_empty =
     print (''VALIDATION FAILED'' @ [nl]) @
     print (''WARNING: No events were parsed from the sample data.'' @ [nl]) @
     print ''This usually indicates one of the following issues:'' @
     print ''  - The parsing_re regex does not match the input format'' @
     print ''  - The platform type does not match the data format'' @
     print ''  - The sample data is empty or contains only whitespace'' @
     print [] @
     print ''Suggestions:'' @
     print ''  - Verify your parsing_re regex matches the sample data'' @
     print ''  - Check that the platform matches your data format (text, json, cef, etc.)'' @
     print ''  - Ensure the sample file contains valid log data''"

text \<open>Lines 205 and 206.\<close>

definition render_success_head :: "pyval list \<Rightarrow> string" where
  "render_success_head res =
     print (''VALIDATION SUCCESSFUL'' @ [nl]) @
     print (''Parsed '' @ str_nat (length res) @ '' event(s):'' @ [nl])"

text \<open>Lines 208 to 227: the results in the selected output mode.\<close>

definition render_results :: "env \<Rightarrow> string \<Rightarrow> pyval list \<Rightarrow> printed" where
  "render_results e fmt res =
     (if fmt = ''json'' then (print (json_dumps e (PList res)), None)
      else if fmt = ''yaml'' then (print (yaml_safe_dump e (PList res)), None)
      else summary_events e 1 res)"

text \<open>\<^verbatim>\<open>result.get(key, [])\<close>: the list under the key, the empty list without the key.\<close>

fun get_or_empty :: "'a list option \<Rightarrow> 'a list" where
  "get_or_empty None = []"
| "get_or_empty (Some xs) = xs"

text \<open>Lines 178 to 227: the text printed and how the run ends.\<close>

definition render :: "env \<Rightarrow> args \<Rightarrow> response \<Rightarrow> string \<times> status" where
  "render e a result =
     (let errs = get_or_empty (errors result);
          res = get_or_empty (results result)
      in
      if errs \<noteq> [] then (render_errors errs res, SysExit 1)
      else if length res = 0 then (render_empty, SysExit 1)
      else
        (case render_results e (output_format a) res of
           (out, None) \<Rightarrow> (render_success_head res @ out, Returned)
         | (out, Some x) \<Rightarrow> (render_success_head res @ out, Uncaught x)))"

subsection \<open>do\_validate\<close>

definition do_validate :: "env \<Rightarrow> args \<Rightarrow> outcome" where
  "do_validate e a =
     (case prepare_request e a of
        Inl msg \<Rightarrow> exited msg None
      | Inr rq \<Rightarrow>
          (case Manager e of
             Inl x \<Rightarrow> \<lparr>stdout = [], stderr = [], status = Uncaught x, request = None\<rparr>
           | Inr validateUSP \<Rightarrow>
               (case validateUSP rq of
                  Inl t \<Rightarrow> exited (''API error: '' @ t) (Some rq)
                | Inr result \<Rightarrow>
                    (case render e a result of
                       (out, st) \<Rightarrow>
                         \<lparr>stdout = out, stderr = [], status = st, request = Some rq\<rparr>))))"

subsection \<open>main: the argument parser (lines 240 to 348)\<close>

definition platform_choices :: "string list" where
  "platform_choices = [''text'', ''json'', ''cef'', ''gcp'', ''aws'']"

definition output_format_choices :: "string list" where
  "output_format_choices = [''summary'', ''json'', ''yaml'']"

text \<open>The namespace before any argument is read: the \<^verbatim>\<open>default\<close> of every option.\<close>

definition default_args :: args where
  "default_args =
     \<lparr>action = [], platform = ''text'', mapping = None, mapping_file = None,
      mappings_file = None, input = None, input_file = None, json_input = False,
      hostname = None, indexing_file = None, output_format = ''summary''\<rparr>"

text \<open>
  The options that take one value, by their option strings: what storing the value
  does to the namespace, \<open>None\<close> when the value is not among the \<^verbatim>\<open>choices\<close>.
\<close>

definition store_option :: "string \<Rightarrow> (string \<Rightarrow> args \<Rightarrow> args option) option" where
  "store_option opt =
     (if opt = ''-p'' \<or> opt = ''--platform'' then
        Some (\<lambda>v a. if v \<in> set platform_choices then Some (a\<lparr>platform := v\<rparr>) else None)
      else if opt = ''-m'' \<or> opt = ''--mapping'' then
        Some (\<lambda>v a. Some (a\<lparr>mapping := Some v\<rparr>))
      else if opt = ''-f'' \<or> opt = ''--mapping-file'' then
        Some (\<lambda>v a. Some (a\<lparr>mapping_file := Some v\<rparr>))
      else if opt = ''--mappings-file'' then
        Some (\<lambda>v a. Some (a\<lparr>mappings_file := Some v\<rparr>))
      else if opt = ''-i'' \<or> opt = ''--input'' then
        Some (\<lambda>v a. Some (a\<lparr>input := Some v\<rparr>))
      else if opt = ''--input-file'' then
        Some (\<lambda>v a. Some (a\<lparr>input_file := Some v\<rparr>))
      else if opt = ''--hostname'' then
        Some (\<lambda>v a. Some (a\<lparr>hostname := Some v\<rparr>))
      else if opt = ''--indexing-file'' then
        Some (\<lambda>v a. Some (a\<lparr>indexing_file := Some v\<rparr>))
      else if opt = ''-o'' \<or> opt = ''--output-format'' then
        Some (\<lambda>v a. if v \<in> set output_format_choices then Some (a\<lparr>output_format := v\<rparr>)
                      else None)
      else None)"

text \<open>
  What \<^verbatim>\<open>parser.parse_args\<close> does with the command line: it fills the namespace, or
  prints the usage and exits with code 2, or prints the help and exits with code 0.
  The model reads the command lines in which every option is written as one of its
  option strings, followed by its value as the next argument, and in which no value
  and no positional argument begins with a dash; on any other command line
  (abbreviated options, \<^verbatim>\<open>--opt=value\<close>, \<^verbatim>\<open>-pVALUE\<close>, a lone \<^verbatim>\<open>--\<close>) it says \<open>Outside\<close>.
\<close>

datatype parse_result = Parsed args | Usage | Help | Outside

definition option_like :: "string \<Rightarrow> bool" where
  "option_like t = (case t of [] \<Rightarrow> False | c # cs \<Rightarrow> c = CHR ''-'')"

text \<open>
  The arguments from left to right, with the namespace so far, the positional
  \<^verbatim>\<open>action\<close> when it has been read, and whether an argument was left over.  A missing
  \<^verbatim>\<open>action\<close> and a left-over argument are reported after the last argument.
\<close>

fun parse_from :: "string list \<Rightarrow> args \<Rightarrow> string option \<Rightarrow> bool \<Rightarrow> parse_result" where
  "parse_from [] a act extras =
     (case act of
        None \<Rightarrow> Usage
      | Some s \<Rightarrow> if extras then Usage else Parsed (a\<lparr>action := s\<rparr>))"
| "parse_from [t] a act extras =
     (if t = ''-h'' \<or> t = ''--help'' then Help
      else if t = ''--json-input'' then parse_from [] (a\<lparr>json_input := True\<rparr>) act extras
      else
        (case store_option t of
           Some f \<Rightarrow> Usage
         | None \<Rightarrow>
             if option_like t then Outside
             else
               (case act of
                  None \<Rightarrow> parse_from [] a (Some t) extras
                | Some s \<Rightarrow> parse_from [] a act True)))"
| "parse_from (t # v # ts) a act extras =
     (if t = ''-h'' \<or> t = ''--help'' then Help
      else if t = ''--json-input'' then parse_from (v # ts) (a\<lparr>json_input := True\<rparr>) act extras
      else
        (case store_option t of
           Some f \<Rightarrow>
             if option_like v then Outside
             else
               (case f v a of
                  None \<Rightarrow> Usage
                | Some a' \<Rightarrow> parse_from ts a' act extras)
         | None \<Rightarrow>
             if option_like t then Outside
             else
               (case act of
                  None \<Rightarrow> parse_from (v # ts) a (Some t) extras
                | Some s \<Rightarrow> parse_from (v # ts) a act True)))"

definition parse_args :: "string list \<Rightarrow> parse_result" where
  "parse_args argv = parse_from argv default_args None False"

text \<open>\<^verbatim>\<open>str.lower\<close> on the letters of ASCII.\<close>

definition lower :: "string \<Rightarrow> string" where
  "lower s =
     map (\<lambda>c. case map_of (zip ''ABCDEFGHIJKLMNOPQRSTUVWXYZ'' ''abcdefghijklmnopqrstuvwxyz'') c of
                 Some l \<Rightarrow> l
               | None \<Rightarrow> c) s"

text \<open>
  A run of \<^verbatim>\<open>main\<close>: \<^verbatim>\<open>argparse\<close> ends it with an exit code, or the action runs; an
  action that is not a key of \<^verbatim>\<open>actions\<close> is a \<^verbatim>\<open>KeyError\<close> that nothing catches.
\<close>

datatype run = ArgparseExit int | Ran outcome | NotModelled

definition main :: "env \<Rightarrow> string list \<Rightarrow> run" where
  "main e argv =
     (case parse_args argv of
        Help \<Rightarrow> ArgparseExit 0
      | Usage \<Rightarrow> ArgparseExit 2
      | Outside \<Rightarrow> NotModelled
      | Parsed a \<Rightarrow>
          if lower (action a) = ''validate'' then Ran (do_validate e a)
          else Ran \<lparr>stdout = [], stderr = [], status = Uncaught ''KeyError'', request = None\<rparr>)"

subsection \<open>Events that the summary mode can print\<close>







subsection \<open>A small environment for the examples\<close>

definition demo_open_rb :: "string \<Rightarrow> io_error + string" where
  "demo_open_rb path =
     (if path = ''object.json'' then Inr ''{}''
      else if path = ''array.json'' then Inr ''[{}]''
      else if path = ''mapping.yaml'' then Inr ''{}''
      else if path = ''sample.log'' then Inr ''line one''
      else Inl (FileNotFoundError ''[Errno 2] No such file or directory''))"

definition demo_json_loads :: "string \<Rightarrow> string + pyval" where
  "demo_json_loads s =
     (if s = ''{}'' then Inr (PDict [])
      else if s = ''[]'' then Inr (PList [])
      else if s = ''[{}]'' then Inr (PList [PDict []])
      else Inl ''Expecting value: line 1 column 1 (char 0)'')"

definition demo_dumps :: "pyval \<Rightarrow> string" where
  "demo_dumps v = ''[...]''"

definition demo_env :: "(request \<Rightarrow> string + response) \<Rightarrow> env" where
  "demo_env service =
     \<lparr>open_rb = demo_open_rb, decode_utf8 = Inr, json_loads = demo_json_loads,
      yaml_safe_load = demo_json_loads, json_dumps = demo_dumps,
      yaml_safe_dump = demo_dumps, repr = demo_dumps, Manager = Inr service\<rparr>"

text \<open>A service that answers every request with the same response, and one that is down.\<close>

definition answers :: "response \<Rightarrow> request \<Rightarrow> string + response" where
  "answers r rq = Inr r"

definition unreachable :: "request \<Rightarrow> string + response" where
  "unreachable rq = Inl ''connection refused''"

text \<open>
  The command line \<^verbatim>\<open>validate --platform cef --input "test data"\<close> and the request
  it leads to.
\<close>

definition cef_args :: args where
  "cef_args =
     default_args\<lparr>action := ''validate'', platform := ''cef'', input := Some ''test data''\<rparr>"

definition cef_request :: request where
  "cef_request =
     \<lparr>req_platform = ''cef'', req_hostname = None, req_mapping = PNone,
      req_mappings = PNone, req_indexing = PNone,
      req_text_input = PStr ''test data'', req_json_input = PNone\<rparr>"

definition empty_response :: response where
  "empty_response = \<lparr>errors = Some [], results = Some []\<rparr>"

definition failed_response :: response where
  "failed_response = \<lparr>errors = Some [''bad regex''], results = Some []\<rparr>"



text \<open>The command line \<^verbatim>\<open>validate\<close> with no option: platform \<^verbatim>\<open>text\<close>, nothing else.\<close>

definition bare_args :: args where
  "bare_args = default_args\<lparr>action := ''validate''\<rparr>"





definition indexing_only_args :: args where
  "indexing_only_args =
     default_args\<lparr>action := ''validate'', platform := ''cef'',
                  indexing_file := Some ''object.json''\<rparr>"

definition mappings_object_args :: args where
  "mappings_object_args =
     default_args\<lparr>action := ''validate'', mappings_file := Some ''object.json'',
                  input := Some ''test''\<rparr>"

definition json_object_args :: args where
  "json_object_args =
     default_args\<lparr>action := ''validate'', mapping_file := Some ''mapping.yaml'',
                  input_file := Some ''object.json'', json_input := True\<rparr>"

definition indexing_object_args :: args where
  "indexing_object_args =
     default_args\<lparr>action := ''validate'', mapping_file := Some ''mapping.yaml'',
                  input := Some ''test'', indexing_file := Some ''object.json''\<rparr>"

text \<open>
  A command line with both \<^verbatim>\<open>--input\<close> and \<^verbatim>\<open>--input-file\<close>, the namespace it gives,
  and the platform \<^verbatim>\<open>json\<close> with a sample and no mapping.
\<close>

definition both_inputs_argv :: "string list" where
  "both_inputs_argv =
     [''validate'', ''--platform'', ''cef'', ''--input'', ''inline text'',
      ''--input-file'', ''sample.log'']"

definition both_inputs_args :: args where
  "both_inputs_args =
     default_args\<lparr>action := ''validate'', platform := ''cef'', input := Some ''inline text'',
                  input_file := Some ''sample.log''\<rparr>"

definition json_args :: args where
  "json_args =
     default_args\<lparr>action := ''validate'', platform := ''json'', input := Some ''{}''\<rparr>"

subsection \<open>Texts of one line\<close>

text \<open>A text without a line break; an argument that is absent or such a text.\<close>

definition one_line :: "string \<Rightarrow> bool" where
  "one_line s = (nl \<notin> set s)"



section \<open>Properties\<close>

subsection \<open>Auxiliary facts\<close>

lemmas load_defs =
  prepare_request_def load_mapping_def require_mapping_def load_mappings_def load_input_def
  require_input_def load_indexing_def load_file_content_def reportError_def
  builtin_parser_platforms_def

lemmas demo_defs =
  demo_env_def demo_open_rb_def demo_json_loads_def demo_dumps_def answers_def unreachable_def
  default_args_def

lemma do_validate_rendered:
  assumes "prepare_request e a = Inr rq" "Manager e = Inr service" "service rq = Inr result"
  shows "do_validate e a =
           \<lparr>stdout = fst (render e a result), stderr = [],
            status = snd (render e a result), request = Some rq\<rparr>"
  using assms by (simp add: do_validate_def split: prod.splits)

lemma render_empty_case:
  assumes "get_or_empty (errors result) = []" "get_or_empty (results result) = []"
  shows "render e a result = (render_empty, SysExit 1)"
  using assms by (simp add: render_def)

lemma render_errors_case:
  assumes "get_or_empty (errors result) \<noteq> []"
  shows "render e a result =
           (render_errors (get_or_empty (errors result)) (get_or_empty (results result)),
            SysExit 1)"
  using assms by (simp add: render_def Let_def)


lemma cef_prepared: "prepare_request (demo_env service) cef_args = Inr cef_request"
  by (simp add: load_defs demo_defs cef_args_def cef_request_def)





lemma do_validate_exited:
  "prepare_request e a = Inl m \<Longrightarrow> do_validate e a = exited m None"
  by (simp add: do_validate_def)


lemma do_validate_no_manager:
  "prepare_request e a = Inr rq \<Longrightarrow> Manager e = Inl x \<Longrightarrow>
   do_validate e a = \<lparr>stdout = [], stderr = [], status = Uncaught x, request = None\<rparr>"
  by (simp add: do_validate_def)


lemma prepare_request_Inl:
  assumes "prepare_request e a = Inl m"
  shows "load_mapping e a = Inl m
       \<or> (\<exists>mv. load_mapping e a = Inr mv \<and> require_mapping a mv = Inl m)
       \<or> load_mappings e a = Inl m
       \<or> load_input e a = Inl m
       \<or> (\<exists>t j. load_input e a = Inr (t, j) \<and> require_input t j = Inl m)
       \<or> load_indexing e a = Inl m"
  using assms by (auto simp: prepare_request_def split: sum.splits prod.splits)

text \<open>No message but the one of lines 119 to 121 begins with the letter P.\<close>

lemma load_file_content_first:
  "load_file_content e p j = Inl m \<Longrightarrow> take 1 m \<noteq> ''P''"
  by (auto simp: load_file_content_def reportError_def split: sum.splits io_error.splits if_splits)

lemma load_mapping_first: "load_mapping e a = Inl m \<Longrightarrow> take 1 m \<noteq> ''P''"
  by (auto simp: load_mapping_def reportError_def split: sum.splits option.splits)

lemma load_mappings_first: "load_mappings e a = Inl m \<Longrightarrow> take 1 m \<noteq> ''P''"
  by (auto simp: load_mappings_def reportError_def mappings_not_array_message_def
      dest: load_file_content_first split: sum.splits option.splits if_splits)

lemma load_input_first: "load_input e a = Inl m \<Longrightarrow> take 1 m \<noteq> ''P''"
  by (auto simp: load_input_def reportError_def json_not_array_message_def
      dest: load_file_content_first split: sum.splits option.splits if_splits)

lemma require_input_first: "require_input t j = Inl m \<Longrightarrow> take 1 m \<noteq> ''P''"
  by (auto simp: require_input_def reportError_def input_required_message_def split: if_splits)

lemma load_indexing_first: "load_indexing e a = Inl m \<Longrightarrow> take 1 m \<noteq> ''P''"
  by (auto simp: load_indexing_def reportError_def indexing_not_array_message_def
      dest: load_file_content_first split: sum.splits option.splits if_splits)

lemma mapping_required_first: "take 1 (mapping_required_message p @ [nl]) = ''P''"
  by (simp add: mapping_required_message_def)

lemma take1_append: "take 1 m \<noteq> ''P'' \<Longrightarrow> take 1 (m @ [nl]) \<noteq> ''P''"
  by (cases m) simp_all

lemma mapping_required_message_text:
  "mapping_required_message p =
     ''Platform '' @ [dq] @ p @ [dq] @ '' requires a mapping configuration.'' @ [nl] @
     ''Use --mapping, --mapping-file, or --mappings-file to provide one.'' @ [nl] @
     ''Platforms with built-in parsers (no mapping required): cef, wel, gcp, aws, 1password, duo, slack''"
  by (simp add: mapping_required_message_def builtin_parser_platforms_def)

lemma stderr_first:
  assumes "\<And>m. prepare_request e a = Inl m \<Longrightarrow> take 1 m \<noteq> ''P''"
  shows "take 1 (stderr (do_validate e a)) \<noteq> ''P''"
proof (cases "prepare_request e a")
  case (Inl m)
  have s: "stderr (do_validate e a) = m @ [nl]"
    by (simp add: do_validate_exited [OF Inl] exited_def)
  show ?thesis
    unfolding s by (rule take1_append) (rule assms [OF Inl])
next
  case (Inr rq)
  then show ?thesis
    by (auto simp: do_validate_def exited_def split: sum.splits prod.splits)
qed




lemma exited_fields:
  "stdout (exited m r) = []" "stderr (exited m r) = m @ [nl]"
  "status (exited m r) = SysExit 1" "request (exited m r) = r"
  by (simp_all add: exited_def)

lemma failing_step:
  assumes "(\<exists>m. load_mappings e a = Inl m) \<or> (\<exists>m. load_input e a = Inl m)
         \<or> (\<exists>t j m. load_input e a = Inr (t, j) \<and> require_input t j = Inl m)
         \<or> (\<exists>m. load_indexing e a = Inl m)"
  shows "\<exists>m. prepare_request e a = Inl m"
  using assms
  by (auto simp: prepare_request_def split: sum.splits prod.splits)

lemma failing_run:
  assumes "prepare_request e a = Inl m"
  shows "stdout (do_validate e a) = [] \<and> status (do_validate e a) = SysExit 1
       \<and> exit_code (status (do_validate e a)) = 1 \<and> request (do_validate e a) = None
       \<and> stderr (do_validate e a) = m @ [nl]"
  by (simp add: do_validate_exited [OF assms] exited_fields)

lemma not_array_words:
  "sublist ''array'' mappings_not_array_message"
  "sublist ''array'' json_not_array_message"
  "sublist ''array'' indexing_not_array_message"
  by code_simp+

lemma demo_object: "load_file_content (demo_env service) ''object.json'' True = Inr (PDict [])"
  by (simp add: load_file_content_def demo_defs)

text \<open>The inline argument is not read when the file argument is there.\<close>

lemma mapping_ignored:
  assumes "truthy_arg (mapping_file a) \<noteq> None"
  shows "load_mapping e (a\<lparr>mapping := m\<rparr>) = load_mapping e a"
  using assms by (auto simp: load_mapping_def split: option.splits)

lemma input_ignored:
  assumes "truthy_arg (input_file a) \<noteq> None"
  shows "load_input e (a\<lparr>input := i\<rparr>) = load_input e a"
  using assms by (auto simp: load_input_def split: option.splits)

lemma prepare_mapping_ignored:
  assumes "truthy_arg (mapping_file a) \<noteq> None"
  shows "prepare_request e (a\<lparr>mapping := m\<rparr>) = prepare_request e a"
proof -
  have "require_mapping (a\<lparr>mapping := m\<rparr>) mv = require_mapping a mv" for mv
    by (simp add: require_mapping_def)
  moreover have "load_mappings e (a\<lparr>mapping := m\<rparr>) = load_mappings e a"
    by (simp add: load_mappings_def)
  moreover have "load_input e (a\<lparr>mapping := m\<rparr>) = load_input e a"
    by (simp add: load_input_def cong: option.case_cong)
  moreover have "load_indexing e (a\<lparr>mapping := m\<rparr>) = load_indexing e a"
    by (simp add: load_indexing_def)
  ultimately show ?thesis
    by (simp add: prepare_request_def mapping_ignored [OF assms]
          cong: sum.case_cong prod.case_cong)
qed

lemma prepare_input_ignored:
  assumes "truthy_arg (input_file a) \<noteq> None"
  shows "prepare_request e (a\<lparr>input := i\<rparr>) = prepare_request e a"
proof -
  have "load_mapping e (a\<lparr>input := i\<rparr>) = load_mapping e a"
    by (simp add: load_mapping_def cong: option.case_cong)
  moreover have "require_mapping (a\<lparr>input := i\<rparr>) mv = require_mapping a mv" for mv
    by (simp add: require_mapping_def)
  moreover have "load_mappings e (a\<lparr>input := i\<rparr>) = load_mappings e a"
    by (simp add: load_mappings_def)
  moreover have "load_indexing e (a\<lparr>input := i\<rparr>) = load_indexing e a"
    by (simp add: load_indexing_def)
  ultimately show ?thesis
    by (simp add: prepare_request_def input_ignored [OF assms]
          cong: sum.case_cong prod.case_cong)
qed

lemma render_mapping: "render e (a\<lparr>mapping := m\<rparr>) r = render e a r"
  by (simp add: render_def Let_def)

lemma render_input: "render e (a\<lparr>input := i\<rparr>) r = render e a r"
  by (simp add: render_def Let_def)

lemma parse_both_inputs:
  assumes "\<not> option_like x" "\<not> option_like f"
  shows "parse_args [''validate'', ''--input'', x, ''--input-file'', f] =
           Parsed (default_args\<lparr>action := ''validate'', input := Some x, input_file := Some f\<rparr>)"
  using assms by (simp add: parse_args_def store_option_def option_like_def default_args_def)

lemma parse_both_mappings:
  assumes "\<not> option_like x" "\<not> option_like f"
  shows "parse_args [''validate'', ''--mapping'', x, ''--mapping-file'', f] =
           Parsed (default_args\<lparr>action := ''validate'', mapping := Some x,
                                mapping_file := Some f\<rparr>)"
  using assms by (simp add: parse_args_def store_option_def option_like_def default_args_def)

text \<open>Which messages are one line of text.\<close>

lemma one_line_append [simp]: "one_line (x @ y) = (one_line x \<and> one_line y)"
  by (auto simp: one_line_def)












subsection \<open>The three classes of response\<close>




text \<open>
  C2.  When the response has no errors and no results, \<^verbatim>\<open>do_validate\<close> prints
  "VALIDATION FAILED", the fixed checklist (no events were parsed; regex mismatch,
  platform mismatch, empty sample) and the fixed suggestions, and exits with code 1.
\<close>

theorem empty_result_fails:
  assumes "prepare_request e a = Inr rq" and "Manager e = Inr service"
    and "service rq = Inr result"
    and "get_or_empty (errors result) = []" and "get_or_empty (results result) = []"
  shows "do_validate e a =
           \<lparr>stdout =
              concat (map print
                [''VALIDATION FAILED'' @ [nl],
                 ''WARNING: No events were parsed from the sample data.'' @ [nl],
                 ''This usually indicates one of the following issues:'',
                 ''  - The parsing_re regex does not match the input format'',
                 ''  - The platform type does not match the data format'',
                 ''  - The sample data is empty or contains only whitespace'',
                 [],
                 ''Suggestions:'',
                 ''  - Verify your parsing_re regex matches the sample data'',
                 ''  - Check that the platform matches your data format (text, json, cef, etc.)'',
                 ''  - Ensure the sample file contains valid log data'']),
            stderr = [], status = SysExit 1, request = Some rq\<rparr>
         \<and> exit_code (status (do_validate e a)) = 1
         \<and> sublist ''VALIDATION FAILED'' (stdout (do_validate e a))
         \<and> sublist ''No events were parsed'' (stdout (do_validate e a))"
proof -
  have r: "do_validate e a =
      \<lparr>stdout = render_empty, stderr = [], status = SysExit 1, request = Some rq\<rparr>"
    using assms by (simp add: do_validate_rendered render_empty_case)
  have s1: "sublist ''VALIDATION FAILED'' render_empty" by code_simp
  have s2: "sublist ''No events were parsed'' render_empty" by code_simp
  show ?thesis
    unfolding r using s1 s2 by (simp add: render_empty_def)
qed

text \<open>The run of the test \<^verbatim>\<open>test_empty_results_shows_warning_message\<close>.\<close>

theorem empty_result_fails_witness:
  "prepare_request (demo_env (answers empty_response)) cef_args = Inr cef_request
   \<and> Manager (demo_env (answers empty_response)) = Inr (answers empty_response)
   \<and> answers empty_response cef_request = Inr empty_response
   \<and> get_or_empty (errors empty_response) = []
   \<and> get_or_empty (results empty_response) = []
   \<and> exit_code (status (do_validate (demo_env (answers empty_response)) cef_args)) = 1
   \<and> sublist ''No events were parsed''
        (stdout (do_validate (demo_env (answers empty_response)) cef_args))"
proof -
  have h1: "prepare_request (demo_env (answers empty_response)) cef_args = Inr cef_request"
    by (rule cef_prepared)
  have h2: "Manager (demo_env (answers empty_response)) = Inr (answers empty_response)"
    by (simp add: demo_env_def)
  have h3: "answers empty_response cef_request = Inr empty_response"
    by (simp add: answers_def)
  have h4: "get_or_empty (errors empty_response) = []"
    and h5: "get_or_empty (results empty_response) = []"
    by (simp_all add: empty_response_def)
  from empty_result_fails [OF h1 h2 h3 h4 h5] h1 h2 h3 h4 h5 show ?thesis
    by blast
qed

text \<open>
  C3.  When the response has errors, \<^verbatim>\<open>do_validate\<close> prints "VALIDATION FAILED", every
  error in order, the number of partially parsed events exactly when there are
  results, and exits with code 1, whether there are results or not.
\<close>

theorem errors_fail:
  assumes "prepare_request e a = Inr rq" and "Manager e = Inr service"
    and "service rq = Inr result"
    and "get_or_empty (errors result) = errs" and "errs \<noteq> []"
    and "get_or_empty (results result) = res"
  shows "do_validate e a =
           \<lparr>stdout =
              print (''VALIDATION FAILED'' @ [nl]) @
              print ''Errors:'' @
              concat (map (\<lambda>err. print (''  - '' @ err)) errs) @
              print [] @
              (if res \<noteq> [] then
                 print (''Partially parsed '' @ str_nat (length res) @
                        '' event(s) before failure.'')
               else []),
            stderr = [], status = SysExit 1, request = Some rq\<rparr>
         \<and> exit_code (status (do_validate e a)) = 1"
  using assms
  by (simp add: do_validate_rendered render_errors_case render_errors_def)

text \<open>The response with the one error "bad regex" and no results.\<close>

theorem errors_fail_witness:
  "prepare_request (demo_env (answers failed_response)) cef_args = Inr cef_request
   \<and> Manager (demo_env (answers failed_response)) = Inr (answers failed_response)
   \<and> answers failed_response cef_request = Inr failed_response
   \<and> get_or_empty (errors failed_response) = [''bad regex'']
   \<and> get_or_empty (results failed_response) = []
   \<and> stdout (do_validate (demo_env (answers failed_response)) cef_args) =
        concat (map print [''VALIDATION FAILED'', [], ''Errors:'', ''  - bad regex'', []])
   \<and> exit_code (status (do_validate (demo_env (answers failed_response)) cef_args)) = 1"
proof -
  have h1: "prepare_request (demo_env (answers failed_response)) cef_args = Inr cef_request"
    by (rule cef_prepared)
  have h2: "Manager (demo_env (answers failed_response)) = Inr (answers failed_response)"
    by (simp add: demo_env_def)
  have h3: "answers failed_response cef_request = Inr failed_response"
    by (simp add: answers_def)
  have h4: "get_or_empty (errors failed_response) = [''bad regex'']"
    and h6: "get_or_empty (results failed_response) = []"
    by (simp_all add: failed_response_def)
  have h5: "[''bad regex''] \<noteq> ([] :: string list)" by simp
  from errors_fail [OF h1 h2 h3 h4 h5 h6] h1 h2 h3 h4 h6 show ?thesis
    by (simp add: print_def)
qed

subsection \<open>The summary mode\<close>




subsection \<open>Checks before the remote call\<close>

text \<open>
  C5.  When no mapping, no mapping file and no mappings file is given: for a platform
  with a built-in parser (such as \<^verbatim>\<open>cef\<close>) the check of lines 116 to 121 does not
  trigger; for any other platform (such as \<^verbatim>\<open>text\<close>) the run ends with exit code 1
  before the remote call, and the message names the platform and lists the platforms
  with built-in parsers.
\<close>

theorem mapping_requirement:
  assumes "mapping a = None" and "mapping_file a = None" and "mappings_file a = None"
  shows "(platform a \<in> set builtin_parser_platforms \<longrightarrow>
            load_mapping e a = Inr PNone \<and> require_mapping a PNone = Inr ()
            \<and> stderr (do_validate e a) \<noteq> mapping_required_message (platform a) @ [nl])
       \<and> (platform a \<notin> set builtin_parser_platforms \<longrightarrow>
            do_validate e a =
              \<lparr>stdout = [],
               stderr =
                 ''Platform '' @ [dq] @ platform a @ [dq] @
                 '' requires a mapping configuration.'' @ [nl] @
                 ''Use --mapping, --mapping-file, or --mappings-file to provide one.'' @ [nl] @
                 ''Platforms with built-in parsers (no mapping required): '' @
                 ''cef, wel, gcp, aws, 1password, duo, slack'' @ [nl],
               status = SysExit 1, request = None\<rparr>
            \<and> exit_code (status (do_validate e a)) = 1)
       \<and> ''cef'' \<in> set builtin_parser_platforms
       \<and> ''text'' \<notin> set builtin_parser_platforms"
proof -
  have lm: "load_mapping e a = Inr PNone"
    using assms by (simp add: load_mapping_def)
  have yes: "stderr (do_validate e a) \<noteq> mapping_required_message (platform a) @ [nl]"
    and rm: "require_mapping a PNone = Inr ()"
    if b: "platform a \<in> set builtin_parser_platforms"
  proof -
    show rm: "require_mapping a PNone = Inr ()"
      using b by (simp add: require_mapping_def)
    have "take 1 m \<noteq> ''P''" if "prepare_request e a = Inl m" for m
      using prepare_request_Inl [OF that] lm rm
      by (auto dest: load_mappings_first load_input_first require_input_first
          load_indexing_first)
    then have "take 1 (stderr (do_validate e a)) \<noteq> ''P''"
      by (rule stderr_first)
    then show "stderr (do_validate e a) \<noteq> mapping_required_message (platform a) @ [nl]"
      using mapping_required_first [of "platform a"] by auto
  qed
  have no: "do_validate e a = exited (mapping_required_message (platform a)) None"
    if "platform a \<notin> set builtin_parser_platforms"
  proof -
    have "prepare_request e a = Inl (mapping_required_message (platform a))"
      using that assms lm by (simp add: prepare_request_def require_mapping_def reportError_def)
    then show ?thesis by (rule do_validate_exited)
  qed
  have c: "''cef'' \<in> set builtin_parser_platforms"
    and t: "''text'' \<notin> set builtin_parser_platforms"
    by (simp_all add: builtin_parser_platforms_def)
  show ?thesis
    using lm yes rm no c t
    by (simp add: exited_def mapping_required_message_text)
qed

text \<open>The platforms \<^verbatim>\<open>cef\<close> and \<^verbatim>\<open>text\<close>.\<close>

theorem mapping_requirement_witness:
  "mapping cef_args = None \<and> mapping_file cef_args = None \<and> mappings_file cef_args = None
   \<and> platform cef_args \<in> set builtin_parser_platforms
   \<and> require_mapping cef_args PNone = Inr ()
   \<and> stderr (do_validate (demo_env (answers empty_response)) cef_args) \<noteq>
        mapping_required_message ''cef'' @ [nl]
   \<and> mapping bare_args = None \<and> mapping_file bare_args = None
   \<and> mappings_file bare_args = None
   \<and> platform bare_args \<notin> set builtin_parser_platforms
   \<and> exit_code (status (do_validate (demo_env unreachable) bare_args)) = 1
   \<and> request (do_validate (demo_env unreachable) bare_args) = None"
proof -
  have c: "mapping cef_args = None" "mapping_file cef_args = None"
    "mappings_file cef_args = None" "platform cef_args = ''cef''"
    by (simp_all add: cef_args_def default_args_def)
  have b: "mapping bare_args = None" "mapping_file bare_args = None"
    "mappings_file bare_args = None" "platform bare_args = ''text''"
    by (simp_all add: bare_args_def default_args_def)
  have cb: "platform cef_args \<in> set builtin_parser_platforms"
    and bb: "platform bare_args \<notin> set builtin_parser_platforms"
    by (simp_all add: c b builtin_parser_platforms_def)
  from mapping_requirement [OF c(1-3), of "demo_env (answers empty_response)"]
    mapping_requirement [OF b(1-3), of "demo_env unreachable"] c b cb bb
  show ?thesis by simp
qed




text \<open>
  C7 (amended).  When the mappings file, the JSON sample (a file or the inline
  argument) or the indexing file parses as JSON and is not an array, the run ends with
  exit code 1 before the remote call; the message is the one of that source, which
  contains the word "array", when the steps before it have passed, and otherwise the
  message of the step that failed.
\<close>

theorem arrays_required:
  "(truthy_arg (mappings_file a) = Some p \<and> load_file_content e p True = Inr v
      \<and> \<not> is_list v \<longrightarrow>
      exit_code (status (do_validate e a)) = 1 \<and> request (do_validate e a) = None
      \<and> (\<forall>mv. load_mapping e a = Inr mv \<longrightarrow>
            stderr (do_validate e a) = mappings_not_array_message @ [nl]))
   \<and> (json_input a \<and> \<not> is_list v
        \<and> (truthy_arg (input_file a) = Some p \<and> load_file_content e p True = Inr v
            \<or> truthy_arg (input_file a) = None \<and> truthy_arg (input a) = Some s
               \<and> json_loads e s = Inr v) \<longrightarrow>
      exit_code (status (do_validate e a)) = 1 \<and> request (do_validate e a) = None
      \<and> (\<forall>mv ms. load_mapping e a = Inr mv \<and> require_mapping a mv = Inr ()
                  \<and> load_mappings e a = Inr ms \<longrightarrow>
            stderr (do_validate e a) = json_not_array_message @ [nl]))
   \<and> (truthy_arg (indexing_file a) = Some p \<and> load_file_content e p True = Inr v
        \<and> \<not> is_list v \<longrightarrow>
      exit_code (status (do_validate e a)) = 1 \<and> request (do_validate e a) = None
      \<and> (\<forall>mv ms t j. load_mapping e a = Inr mv \<and> require_mapping a mv = Inr ()
                  \<and> load_mappings e a = Inr ms \<and> load_input e a = Inr (t, j)
                  \<and> require_input t j = Inr () \<longrightarrow>
            stderr (do_validate e a) = indexing_not_array_message @ [nl]))
   \<and> sublist ''array'' mappings_not_array_message
   \<and> sublist ''array'' json_not_array_message
   \<and> sublist ''array'' indexing_not_array_message"
proof -
  have ends: "exit_code (status (do_validate e a)) = 1 \<and> request (do_validate e a) = None"
    if "\<exists>m. prepare_request e a = Inl m"
    using that failing_run by blast
  \<comment> \<open>the mappings file\<close>
  have m1: "load_mappings e a = Inl mappings_not_array_message"
    if "truthy_arg (mappings_file a) = Some p" "load_file_content e p True = Inr v"
      "\<not> is_list v"
    using that by (simp add: load_mappings_def reportError_def)
  have m2: "stderr (do_validate e a) = mappings_not_array_message @ [nl]"
    if "truthy_arg (mappings_file a) = Some p" "load_file_content e p True = Inr v"
      "\<not> is_list v" "load_mapping e a = Inr mv" for mv
  proof -
    from that(1) have "mappings_file a \<noteq> None" by (cases "mappings_file a") simp_all
    then have "require_mapping a mv = Inr ()" by (auto simp: require_mapping_def)
    with m1 [OF that(1-3)] that(4)
    have "prepare_request e a = Inl mappings_not_array_message"
      by (simp add: prepare_request_def)
    from failing_run [OF this] show ?thesis by simp
  qed
  \<comment> \<open>the JSON sample\<close>
  have j1: "load_input e a = Inl json_not_array_message"
    if "json_input a" "\<not> is_list v"
      "truthy_arg (input_file a) = Some p \<and> load_file_content e p True = Inr v
       \<or> truthy_arg (input_file a) = None \<and> truthy_arg (input a) = Some s
          \<and> json_loads e s = Inr v"
    using that by (auto simp: load_input_def reportError_def)
  have j2: "stderr (do_validate e a) = json_not_array_message @ [nl]"
    if "load_input e a = Inl json_not_array_message"
      "load_mapping e a = Inr mv" "require_mapping a mv = Inr ()" "load_mappings e a = Inr ms"
    for mv ms
  proof -
    from that have "prepare_request e a = Inl json_not_array_message"
      by (simp add: prepare_request_def)
    from failing_run [OF this] show ?thesis by simp
  qed
  \<comment> \<open>the indexing file\<close>
  have i1: "load_indexing e a = Inl indexing_not_array_message"
    if "truthy_arg (indexing_file a) = Some p" "load_file_content e p True = Inr v"
      "\<not> is_list v"
    using that by (simp add: load_indexing_def reportError_def)
  have i2: "stderr (do_validate e a) = indexing_not_array_message @ [nl]"
    if "load_indexing e a = Inl indexing_not_array_message"
      "load_mapping e a = Inr mv" "require_mapping a mv = Inr ()" "load_mappings e a = Inr ms"
      "load_input e a = Inr (t, j)" "require_input t j = Inr ()"
    for mv ms t j
  proof -
    from that have "prepare_request e a = Inl indexing_not_array_message"
      by (simp add: prepare_request_def)
    from failing_run [OF this] show ?thesis by simp
  qed
  have c1: "truthy_arg (mappings_file a) = Some p \<and> load_file_content e p True = Inr v
      \<and> \<not> is_list v \<longrightarrow>
      exit_code (status (do_validate e a)) = 1 \<and> request (do_validate e a) = None
      \<and> (\<forall>mv. load_mapping e a = Inr mv \<longrightarrow>
            stderr (do_validate e a) = mappings_not_array_message @ [nl])"
    using m1 m2 ends failing_step [of e a] by blast
  have c2: "json_input a \<and> \<not> is_list v
        \<and> (truthy_arg (input_file a) = Some p \<and> load_file_content e p True = Inr v
            \<or> truthy_arg (input_file a) = None \<and> truthy_arg (input a) = Some s
               \<and> json_loads e s = Inr v) \<longrightarrow>
      exit_code (status (do_validate e a)) = 1 \<and> request (do_validate e a) = None
      \<and> (\<forall>mv ms. load_mapping e a = Inr mv \<and> require_mapping a mv = Inr ()
                  \<and> load_mappings e a = Inr ms \<longrightarrow>
            stderr (do_validate e a) = json_not_array_message @ [nl])"
  proof (intro impI)
    assume h: "json_input a \<and> \<not> is_list v
        \<and> (truthy_arg (input_file a) = Some p \<and> load_file_content e p True = Inr v
            \<or> truthy_arg (input_file a) = None \<and> truthy_arg (input a) = Some s
               \<and> json_loads e s = Inr v)"
    then have l: "load_input e a = Inl json_not_array_message"
      using j1 by blast
    then have "\<exists>m. prepare_request e a = Inl m"
      using failing_step [of e a] by blast
    with ends j2 [OF l] show "exit_code (status (do_validate e a)) = 1
      \<and> request (do_validate e a) = None
      \<and> (\<forall>mv ms. load_mapping e a = Inr mv \<and> require_mapping a mv = Inr ()
                  \<and> load_mappings e a = Inr ms \<longrightarrow>
            stderr (do_validate e a) = json_not_array_message @ [nl])"
      by blast
  qed
  have c3: "truthy_arg (indexing_file a) = Some p \<and> load_file_content e p True = Inr v
        \<and> \<not> is_list v \<longrightarrow>
      exit_code (status (do_validate e a)) = 1 \<and> request (do_validate e a) = None
      \<and> (\<forall>mv ms t j. load_mapping e a = Inr mv \<and> require_mapping a mv = Inr ()
                  \<and> load_mappings e a = Inr ms \<and> load_input e a = Inr (t, j)
                  \<and> require_input t j = Inr () \<longrightarrow>
            stderr (do_validate e a) = indexing_not_array_message @ [nl])"
  proof (intro impI)
    assume h: "truthy_arg (indexing_file a) = Some p \<and> load_file_content e p True = Inr v
        \<and> \<not> is_list v"
    then have l: "load_indexing e a = Inl indexing_not_array_message"
      using i1 by blast
    then have "\<exists>m. prepare_request e a = Inl m"
      using failing_step [of e a] by blast
    with ends i2 [OF l] show "exit_code (status (do_validate e a)) = 1
      \<and> request (do_validate e a) = None
      \<and> (\<forall>mv ms t j. load_mapping e a = Inr mv \<and> require_mapping a mv = Inr ()
                  \<and> load_mappings e a = Inr ms \<and> load_input e a = Inr (t, j)
                  \<and> require_input t j = Inr () \<longrightarrow>
            stderr (do_validate e a) = indexing_not_array_message @ [nl])"
      by blast
  qed
  from c1 c2 c3 not_array_words show ?thesis by (intro conjI)
qed

text \<open>The three tests \<^verbatim>\<open>test_validate_*_must_be_array\<close>.\<close>

theorem arrays_required_witness:
  "truthy_arg (mappings_file mappings_object_args) = Some ''object.json''
   \<and> load_file_content (demo_env unreachable) ''object.json'' True = Inr (PDict [])
   \<and> \<not> is_list (PDict [])
   \<and> load_mapping (demo_env unreachable) mappings_object_args = Inr PNone
   \<and> exit_code (status (do_validate (demo_env unreachable) mappings_object_args)) = 1
   \<and> request (do_validate (demo_env unreachable) mappings_object_args) = None
   \<and> stderr (do_validate (demo_env unreachable) mappings_object_args) =
        ''--mappings-file must contain a JSON array of mapping descriptors'' @ [nl]
   \<and> json_input json_object_args
   \<and> truthy_arg (input_file json_object_args) = Some ''object.json''
   \<and> load_mapping (demo_env unreachable) json_object_args = Inr (PDict [])
   \<and> require_mapping json_object_args (PDict []) = Inr ()
   \<and> load_mappings (demo_env unreachable) json_object_args = Inr PNone
   \<and> exit_code (status (do_validate (demo_env unreachable) json_object_args)) = 1
   \<and> request (do_validate (demo_env unreachable) json_object_args) = None
   \<and> stderr (do_validate (demo_env unreachable) json_object_args) =
        ''JSON input must be an array of objects'' @ [nl]
   \<and> truthy_arg (indexing_file indexing_object_args) = Some ''object.json''
   \<and> load_mapping (demo_env unreachable) indexing_object_args = Inr (PDict [])
   \<and> require_mapping indexing_object_args (PDict []) = Inr ()
   \<and> load_mappings (demo_env unreachable) indexing_object_args = Inr PNone
   \<and> load_input (demo_env unreachable) indexing_object_args = Inr (PStr ''test'', PNone)
   \<and> require_input (PStr ''test'') PNone = Inr ()
   \<and> exit_code (status (do_validate (demo_env unreachable) indexing_object_args)) = 1
   \<and> request (do_validate (demo_env unreachable) indexing_object_args) = None
   \<and> stderr (do_validate (demo_env unreachable) indexing_object_args) =
        ''--indexing-file must contain a JSON array of indexing rules'' @ [nl]"
proof -
  let ?e = "demo_env unreachable"
  have o: "load_file_content ?e ''object.json'' True = Inr (PDict [])"
    by (rule demo_object)
  have n: "\<not> is_list (PDict [])" by simp
  have m: "truthy_arg (mappings_file mappings_object_args) = Some ''object.json''"
    "load_mapping ?e mappings_object_args = Inr PNone"
    by (simp_all add: mappings_object_args_def load_defs demo_defs)
  have j: "json_input json_object_args"
    "truthy_arg (input_file json_object_args) = Some ''object.json''"
    "load_mapping ?e json_object_args = Inr (PDict [])"
    "require_mapping json_object_args (PDict []) = Inr ()"
    "load_mappings ?e json_object_args = Inr PNone"
    by (simp_all add: json_object_args_def load_defs demo_defs)
  have i: "truthy_arg (indexing_file indexing_object_args) = Some ''object.json''"
    "load_mapping ?e indexing_object_args = Inr (PDict [])"
    "require_mapping indexing_object_args (PDict []) = Inr ()"
    "load_mappings ?e indexing_object_args = Inr PNone"
    "load_input ?e indexing_object_args = Inr (PStr ''test'', PNone)"
    "require_input (PStr ''test'') PNone = Inr ()"
    by (simp_all add: indexing_object_args_def load_defs demo_defs)
  from arrays_required [where e = ?e and a = mappings_object_args and p = "''object.json''"
        and v = "PDict []"]
    arrays_required [where e = ?e and a = json_object_args and p = "''object.json''"
        and v = "PDict []"]
    arrays_required [where e = ?e and a = indexing_object_args and p = "''object.json''"
        and v = "PDict []"]
    o n m j i
  show ?thesis
    by (simp add: mappings_not_array_message_def json_not_array_message_def
          indexing_not_array_message_def)
qed

text \<open>
  An indexing file that holds an object, and no sample: the message is the one about
  the missing input, without the word "array".
\<close>

theorem arrays_required_counterexample:
  "truthy_arg (indexing_file indexing_only_args) = Some ''object.json''
   \<and> load_file_content (demo_env unreachable) ''object.json'' True = Inr (PDict [])
   \<and> \<not> is_list (PDict [])
   \<and> stderr (do_validate (demo_env unreachable) indexing_only_args) =
        ''Either --input or --input-file is required'' @ [nl]
   \<and> \<not> sublist ''array'' (stderr (do_validate (demo_env unreachable) indexing_only_args))"
proof -
  have p: "prepare_request (demo_env unreachable) indexing_only_args =
      Inl input_required_message"
    by (simp add: load_defs indexing_only_args_def default_args_def input_required_message_def)
  have s: "stderr (do_validate (demo_env unreachable) indexing_only_args) =
      input_required_message @ [nl]"
    using failing_run [OF p] by simp
  have n: "\<not> sublist ''array'' (input_required_message @ [nl])"
    by code_simp
  have t: "truthy_arg (indexing_file indexing_only_args) = Some ''object.json''"
    by (simp add: indexing_only_args_def default_args_def)
  show ?thesis
    unfolding s using n t demo_object [of unreachable]
    by (simp add: input_required_message_def)
qed

text \<open>
  C8 (amended).  In the mapping resolver and in the input resolver, when a non-empty
  file path and an inline argument are both given, the file is used and the inline
  argument is ignored: the run is the same whatever the inline argument is.  The
  command line does not make the two flags exclusive: \<^verbatim>\<open>argparse\<close> accepts
  \<^verbatim>\<open>--input\<close> together with \<^verbatim>\<open>--input-file\<close>, and \<^verbatim>\<open>--mapping\<close> together with
  \<^verbatim>\<open>--mapping-file\<close>, and stores both.
\<close>

theorem file_first:
  "(truthy_arg (mapping_file a) \<noteq> None \<longrightarrow>
      load_mapping e (a\<lparr>mapping := m\<rparr>) = load_mapping e a
      \<and> do_validate e (a\<lparr>mapping := m\<rparr>) = do_validate e a)
   \<and> (truthy_arg (input_file a) \<noteq> None \<longrightarrow>
        load_input e (a\<lparr>input := i\<rparr>) = load_input e a
        \<and> do_validate e (a\<lparr>input := i\<rparr>) = do_validate e a)
   \<and> (\<not> option_like x \<and> \<not> option_like f \<longrightarrow>
        parse_args [''validate'', ''--input'', x, ''--input-file'', f] =
          Parsed (default_args\<lparr>action := ''validate'', input := Some x,
                               input_file := Some f\<rparr>)
        \<and> parse_args [''validate'', ''--mapping'', x, ''--mapping-file'', f] =
          Parsed (default_args\<lparr>action := ''validate'', mapping := Some x,
                               mapping_file := Some f\<rparr>))"
proof -
  have m: "do_validate e (a\<lparr>mapping := m\<rparr>) = do_validate e a"
    if "truthy_arg (mapping_file a) \<noteq> None"
    by (simp add: do_validate_def prepare_mapping_ignored [OF that] render_mapping
          cong: sum.case_cong)
  have i: "do_validate e (a\<lparr>input := i\<rparr>) = do_validate e a"
    if "truthy_arg (input_file a) \<noteq> None"
    by (simp add: do_validate_def prepare_input_ignored [OF that] render_input
          cong: sum.case_cong)
  from m i mapping_ignored input_ignored parse_both_inputs parse_both_mappings
  show ?thesis by blast
qed

text \<open>A mapping file with an inline mapping, and a sample file with an inline sample.\<close>

theorem file_first_witness:
  "truthy_arg (mapping_file json_object_args) \<noteq> None
   \<and> load_mapping (demo_env unreachable) (json_object_args\<lparr>mapping := Some ''[]''\<rparr>) =
        Inr (PDict [])
   \<and> truthy_arg (input_file both_inputs_args) \<noteq> None
   \<and> load_input (demo_env unreachable) (both_inputs_args\<lparr>input := None\<rparr>) =
        Inr (PStr ''line one'', PNone)
   \<and> load_input (demo_env unreachable) both_inputs_args = Inr (PStr ''line one'', PNone)
   \<and> do_validate (demo_env unreachable) (both_inputs_args\<lparr>input := None\<rparr>) =
        do_validate (demo_env unreachable) both_inputs_args
   \<and> \<not> option_like ''inline text'' \<and> \<not> option_like ''sample.log''
   \<and> parse_args [''validate'', ''--input'', ''inline text'', ''--input-file'', ''sample.log''] =
        Parsed (default_args\<lparr>action := ''validate'', input := Some ''inline text'',
                             input_file := Some ''sample.log''\<rparr>)"
proof -
  have t: "truthy_arg (mapping_file json_object_args) \<noteq> None"
    "truthy_arg (input_file both_inputs_args) \<noteq> None"
    by (simp_all add: json_object_args_def both_inputs_args_def default_args_def)
  have o: "\<not> option_like ''inline text''" "\<not> option_like ''sample.log''"
    by (simp_all add: option_like_def)
  have l: "load_mapping (demo_env unreachable) json_object_args = Inr (PDict [])"
    "load_input (demo_env unreachable) both_inputs_args = Inr (PStr ''line one'', PNone)"
    by (simp_all add: json_object_args_def both_inputs_args_def load_defs demo_defs)
  from file_first [where e = "demo_env unreachable" and a = json_object_args
      and m = "Some ''[]''"]
    file_first [where e = "demo_env unreachable" and a = both_inputs_args and i = None
      and x = "''inline text''" and f = "''sample.log''"]
    t o l
  show ?thesis by simp
qed

text \<open>
  The command line with both input flags is parsed, both values are stored, the
  action runs, and the sample of the request is the content of the file.
\<close>

theorem exclusive_flags_counterexample:
  "parse_args both_inputs_argv = Parsed both_inputs_args
   \<and> input both_inputs_args = Some ''inline text''
   \<and> input_file both_inputs_args = Some ''sample.log''
   \<and> main (demo_env (answers empty_response)) both_inputs_argv =
        Ran (do_validate (demo_env (answers empty_response)) both_inputs_args)
   \<and> prepare_request (demo_env (answers empty_response)) both_inputs_args =
        Inr (cef_request\<lparr>req_text_input := PStr ''line one''\<rparr>)"
  by (simp add: both_inputs_argv_def both_inputs_args_def parse_args_def store_option_def
        option_like_def default_args_def platform_choices_def main_def lower_def
        load_defs demo_defs cef_request_def)

subsection \<open>How errors are reported\<close>




subsection \<open>The platforms of the command line and the built-in parsers\<close>

text \<open>
  C10.  Of the five platforms that the command line accepts (text, json, cef, gcp,
  aws) exactly cef, gcp and aws have a built-in parser, so that \<^verbatim>\<open>json\<close>, like \<^verbatim>\<open>text\<close>,
  without a mapping source ends the run before the remote call; and the list of
  built-in parsers shown to the user holds the names wel, 1password, duo and slack,
  which \<^verbatim>\<open>--platform\<close> does not accept.
\<close>

theorem platform_sets:
  "filter (\<lambda>p. p \<in> set builtin_parser_platforms) platform_choices = [''cef'', ''gcp'', ''aws'']
   \<and> filter (\<lambda>p. p \<notin> set platform_choices) builtin_parser_platforms =
        [''wel'', ''1password'', ''duo'', ''slack'']
   \<and> (v \<in> set platform_choices \<longrightarrow>
        parse_args [''validate'', ''--platform'', v] =
          Parsed (default_args\<lparr>action := ''validate'', platform := v\<rparr>))
   \<and> (v \<notin> set platform_choices \<and> \<not> option_like v \<longrightarrow>
        parse_args [''validate'', ''--platform'', v] = Usage)
   \<and> ((platform a = ''json'' \<or> platform a = ''text'') \<and> mapping a = None
        \<and> mapping_file a = None \<and> mappings_file a = None \<longrightarrow>
        do_validate e a =
          \<lparr>stdout = [], stderr = mapping_required_message (platform a) @ [nl],
           status = SysExit 1, request = None\<rparr>)"
proof -
  have f1: "filter (\<lambda>p. p \<in> set builtin_parser_platforms) platform_choices =
      [''cef'', ''gcp'', ''aws'']"
    by (simp add: builtin_parser_platforms_def platform_choices_def)
  have f2: "filter (\<lambda>p. p \<notin> set platform_choices) builtin_parser_platforms =
      [''wel'', ''1password'', ''duo'', ''slack'']"
    by (simp add: builtin_parser_platforms_def platform_choices_def)
  have ol: "\<not> option_like v" if "v \<in> set platform_choices"
    using that by (auto simp: platform_choices_def option_like_def)
  have p1: "parse_args [''validate'', ''--platform'', v] =
      Parsed (default_args\<lparr>action := ''validate'', platform := v\<rparr>)"
    if "v \<in> set platform_choices"
    using that ol [OF that]
    by (simp add: parse_args_def store_option_def option_like_def)
  have p2: "parse_args [''validate'', ''--platform'', v] = Usage"
    if "v \<notin> set platform_choices" "\<not> option_like v"
    using that by (simp add: parse_args_def store_option_def option_like_def)
  have d: "do_validate e a =
      \<lparr>stdout = [], stderr = mapping_required_message (platform a) @ [nl],
       status = SysExit 1, request = None\<rparr>"
    if "platform a = ''json'' \<or> platform a = ''text''" "mapping a = None"
      "mapping_file a = None" "mappings_file a = None"
  proof -
    from that(1) have "platform a \<notin> set builtin_parser_platforms"
      by (auto simp: builtin_parser_platforms_def)
    with that(2-4) have "prepare_request e a = Inl (mapping_required_message (platform a))"
      by (simp add: prepare_request_def load_mapping_def require_mapping_def reportError_def)
    then show ?thesis by (simp add: do_validate_exited exited_def)
  qed
  from f1 f2 p1 p2 d show ?thesis by blast
qed

text \<open>The platforms \<^verbatim>\<open>json\<close> and \<^verbatim>\<open>wel\<close> on the command line.\<close>

theorem platform_sets_witness:
  "''json'' \<in> set platform_choices
   \<and> parse_args [''validate'', ''--platform'', ''json''] =
        Parsed (default_args\<lparr>action := ''validate'', platform := ''json''\<rparr>)
   \<and> ''wel'' \<notin> set platform_choices \<and> \<not> option_like ''wel''
   \<and> parse_args [''validate'', ''--platform'', ''wel''] = Usage
   \<and> platform json_args = ''json'' \<and> mapping json_args = None
   \<and> mapping_file json_args = None \<and> mappings_file json_args = None
   \<and> status (do_validate (demo_env unreachable) json_args) = SysExit 1
   \<and> request (do_validate (demo_env unreachable) json_args) = None"
proof -
  have c: "''json'' \<in> set platform_choices" "''wel'' \<notin> set platform_choices"
    "\<not> option_like ''wel''"
    by (simp_all add: platform_choices_def option_like_def)
  have j: "platform json_args = ''json''" "mapping json_args = None"
    "mapping_file json_args = None" "mappings_file json_args = None"
    by (simp_all add: json_args_def default_args_def)
  from platform_sets [where v = "''json''" and a = json_args and e = "demo_env unreachable"]
    platform_sets [where v = "''wel''" and a = json_args and e = "demo_env unreachable"] c j
  show ?thesis by simp
qed

end
